theory Spec2Isabelle
  imports Main
begin

section \<open>The data model (src/lib/db/mongoose-schema.ts)\<close>

text \<open>
  Dates are milliseconds since the epoch. Every stored document carries the \<open>_id\<close> that the
  store assigns on insertion (an ObjectId, here a counter value), next to the fields the
  schema declares; the schema's own \<open>id\<close> field is a separate string.
\<close>

type_synonym date = int

text \<open>
  \<open>new Date(t)\<close> is a date only within 8.64e15 milliseconds of the epoch; beyond, it is
  the Invalid Date, which the store refuses to cast when it stands in a query. The dates
  that callers pass in and that the store holds are taken to be valid.
\<close>

definition validDate :: "int \<Rightarrow> bool" where
  "validDate t = (- 8640000000000000 \<le> t \<and> t \<le> 8640000000000000)"
type_synonym objectId = nat

datatype visibilityType = Public | Private
datatype artifactKind = Kind_text | Kind_code | Kind_image | Kind_sheet
datatype voteType = Up | Down

record IUser =
  user_oid :: objectId
  user_id :: string
  user_email :: string
  user_password :: "string option"

record IChat =
  chat_oid :: objectId
  chat_id :: string
  chat_createdAt :: date
  chat_title :: string
  chat_userId :: string
  chat_visibility :: visibilityType

record IDBMessage =
  msg_oid :: objectId
  msg_id :: string
  msg_chatId :: string
  msg_role :: string
  msg_parts :: string
  msg_attachments :: string
  msg_createdAt :: date

record IVote =
  vote_oid :: objectId
  vote_chatId :: string
  vote_messageId :: string
  vote_isUpvoted :: bool

record IDocument =
  doc_oid :: objectId
  doc_id :: string
  doc_createdAt :: date
  doc_title :: string
  doc_content :: "string option"
  doc_kind :: artifactKind
  doc_userId :: string

record ISuggestion =
  sug_oid :: objectId
  sug_id :: string
  sug_documentId :: string
  sug_documentCreatedAt :: date
  sug_originalText :: string
  sug_suggestedText :: string
  sug_description :: "string option"
  sug_isResolved :: bool
  sug_userId :: string
  sug_createdAt :: date

record IStream =
  stream_oid :: objectId
  stream_id :: string
  stream_chatId :: string
  stream_createdAt :: date

text \<open>The object literal handed to \<open>User.create\<close>: any of the schema's fields may be left out.\<close>

record userFields =
  given_id :: "string option"
  given_email :: "string option"
  given_password :: "string option"

section \<open>The world: the store, the clock, the randomness and the fate of requests\<close>

text \<open>
  \<open>faults\<close> lists the fate of the upcoming operations on the store, one flag for each
  operation the code awaits, \<open>True\<close> for one that the store fails (connection lost,
  time-out); when the list is used up every operation is served. \<open>entropy\<close> counts the
  UUIDs drawn so far.
\<close>

record world =
  db_users :: "IUser list"
  db_chats :: "IChat list"
  db_messages :: "IDBMessage list"
  db_votes :: "IVote list"
  db_documents :: "IDocument list"
  db_suggestions :: "ISuggestion list"
  db_streams :: "IStream list"
  next_oid :: objectId
  now :: date
  entropy :: nat
  faults :: "bool list"

text \<open>
  What the module imports and src/ does not hold, taken as parameters: the password
  hashing helper, the UUID generator (the n-th UUID drawn), and the two string casts the
  store applies when a query compares a String path with an ObjectId or with a document
  that was selected down to its \<open>_id\<close>.
\<close>

record environment =
  generateHashedPassword :: "string \<Rightarrow> string"
  uuidOf :: "nat \<Rightarrow> string"
  oidToString :: "objectId \<Rightarrow> string"
  docToString :: "objectId \<Rightarrow> string"

datatype storeError = NetworkError | ValidationError "string list" | DuplicateKeyError | CastError string

text \<open>
  Modelled from the spec: the error class \<open>ChatSDKError\<close> of ../errors, which is not
  among the sources: "a single tagged error type carrying a kind (bad_request:database or
  not_found:database) and a human-readable message". Its two constructor arguments are
  kept as the code passes them. What a function can throw is such an error or an error of
  the store itself.
\<close>

datatype exn = StoreError storeError | ChatSDKError string string

type_synonym 'a io = "world \<Rightarrow> (exn + 'a) \<times> world"

definition resolve :: "'a \<Rightarrow> 'a io" where
  "resolve v w = (Inr v, w)"

definition throw :: "exn \<Rightarrow> 'a io" where
  "throw e w = (Inl e, w)"

text \<open>\<open>const v = await m; f v\<close>: an exception of \<open>m\<close> skips the rest.\<close>

definition andThen :: "'a io \<Rightarrow> ('a \<Rightarrow> 'b io) \<Rightarrow> 'b io" where
  "andThen m f w = (case m w of (Inl e, w') \<Rightarrow> (Inl e, w') | (Inr v, w') \<Rightarrow> f v w')"

text \<open>\<open>try { body } catch (error) { throw new ChatSDKError(kind, message) }\<close>\<close>

definition tryCatch :: "string \<Rightarrow> string \<Rightarrow> 'a io \<Rightarrow> 'a io" where
  "tryCatch kind message body w =
     (case body w of (Inl e, w') \<Rightarrow> (Inl (ChatSDKError kind message), w')
                   | (Inr v, w') \<Rightarrow> (Inr v, w'))"

text \<open>One awaited operation on the store: it consumes the next fate.\<close>

definition request :: "'a io \<Rightarrow> 'a io" where
  "request op w =
     (case faults w of
        [] \<Rightarrow> op w
      | f # fs \<Rightarrow> if f then (Inl (StoreError NetworkError), w\<lparr>faults := fs\<rparr>)
                  else op (w\<lparr>faults := fs\<rparr>))"

definition dateNow :: "date io" where
  "dateNow w = (Inr (now w), w)"

definition generateUUID :: "environment \<Rightarrow> string io" where
  "generateUUID env w = (Inr (uuidOf env (entropy w)), w\<lparr>entropy := Suc (entropy w)\<rparr>)"

section \<open>Models: a collection with its schema\<close>

text \<open>
  \<open>cast\<close> is the schema's validation of a new document (\<open>Inl\<close> the paths that fail), giving
  the document to store under the given \<open>_id\<close>; \<open>collides\<close> says when two documents agree on
  a unique index.
\<close>

record ('i, 'a) model =
  docs :: "world \<Rightarrow> 'a list"
  put :: "'a list \<Rightarrow> world \<Rightarrow> world"
  cast :: "objectId \<Rightarrow> 'i \<Rightarrow> string list + 'a"
  collides :: "'a \<Rightarrow> 'a \<Rightarrow> bool"

text \<open>\<open>required: true\<close> on a String path rejects the empty string as well.\<close>

definition required :: "string \<Rightarrow> string \<Rightarrow> string list" where
  "required path v = (if v = [] then [path] else [])"

definition requiredOpt :: "string \<Rightarrow> string option \<Rightarrow> string list" where
  "requiredOpt path v = (case v of None \<Rightarrow> [path] | Some s \<Rightarrow> required path s)"

definition maxlength :: "nat \<Rightarrow> string \<Rightarrow> string option \<Rightarrow> string list" where
  "maxlength n path v = (case v of None \<Rightarrow> [] | Some s \<Rightarrow> if n < length s then [path] else [])"

definition orEmpty :: "string option \<Rightarrow> string" where
  "orEmpty v = (case v of None \<Rightarrow> [] | Some s \<Rightarrow> s)"

definition checked :: "string list \<Rightarrow> 'a \<Rightarrow> string list + 'a" where
  "checked errors d = (if errors = [] then Inr d else Inl errors)"

definition userSchema :: "objectId \<Rightarrow> userFields \<Rightarrow> string list + IUser" where
  "userSchema oid d =
     checked (requiredOpt ''id'' (given_id d) @ requiredOpt ''email'' (given_email d)
              @ maxlength 64 ''email'' (given_email d) @ maxlength 64 ''password'' (given_password d))
       \<lparr>user_oid = oid, user_id = orEmpty (given_id d), user_email = orEmpty (given_email d),
        user_password = given_password d\<rparr>"

definition chatSchema :: "objectId \<Rightarrow> IChat \<Rightarrow> string list + IChat" where
  "chatSchema oid d =
     checked (required ''id'' (chat_id d) @ required ''title'' (chat_title d)
              @ required ''userId'' (chat_userId d))
       (d\<lparr>chat_oid := oid\<rparr>)"

definition messageSchema :: "objectId \<Rightarrow> IDBMessage \<Rightarrow> string list + IDBMessage" where
  "messageSchema oid d =
     checked (required ''id'' (msg_id d) @ required ''chatId'' (msg_chatId d)
              @ required ''role'' (msg_role d))
       (d\<lparr>msg_oid := oid\<rparr>)"

definition voteSchema :: "objectId \<Rightarrow> IVote \<Rightarrow> string list + IVote" where
  "voteSchema oid d =
     checked (required ''chatId'' (vote_chatId d) @ required ''messageId'' (vote_messageId d))
       (d\<lparr>vote_oid := oid\<rparr>)"

definition documentSchema :: "objectId \<Rightarrow> IDocument \<Rightarrow> string list + IDocument" where
  "documentSchema oid d =
     checked (required ''id'' (doc_id d) @ required ''title'' (doc_title d)
              @ required ''userId'' (doc_userId d))
       (d\<lparr>doc_oid := oid\<rparr>)"

definition suggestionSchema :: "objectId \<Rightarrow> ISuggestion \<Rightarrow> string list + ISuggestion" where
  "suggestionSchema oid d =
     checked (required ''id'' (sug_id d) @ required ''documentId'' (sug_documentId d)
              @ required ''originalText'' (sug_originalText d)
              @ required ''suggestedText'' (sug_suggestedText d)
              @ required ''userId'' (sug_userId d))
       (d\<lparr>sug_oid := oid\<rparr>)"

definition streamSchema :: "objectId \<Rightarrow> IStream \<Rightarrow> string list + IStream" where
  "streamSchema oid d =
     checked (required ''id'' (stream_id d) @ required ''chatId'' (stream_chatId d))
       (d\<lparr>stream_oid := oid\<rparr>)"

definition User :: "(userFields, IUser) model" where
  "User = \<lparr>docs = db_users, put = (\<lambda>xs w. w\<lparr>db_users := xs\<rparr>), cast = userSchema,
           collides = (\<lambda>a b. user_id a = user_id b \<or> user_email a = user_email b)\<rparr>"

definition Chat :: "(IChat, IChat) model" where
  "Chat = \<lparr>docs = db_chats, put = (\<lambda>xs w. w\<lparr>db_chats := xs\<rparr>), cast = chatSchema,
           collides = (\<lambda>a b. chat_id a = chat_id b)\<rparr>"

definition Message :: "(IDBMessage, IDBMessage) model" where
  "Message = \<lparr>docs = db_messages, put = (\<lambda>xs w. w\<lparr>db_messages := xs\<rparr>), cast = messageSchema,
              collides = (\<lambda>a b. msg_id a = msg_id b)\<rparr>"

definition Vote :: "(IVote, IVote) model" where
  "Vote = \<lparr>docs = db_votes, put = (\<lambda>xs w. w\<lparr>db_votes := xs\<rparr>), cast = voteSchema,
           collides = (\<lambda>a b. vote_chatId a = vote_chatId b \<and> vote_messageId a = vote_messageId b)\<rparr>"

definition Document :: "(IDocument, IDocument) model" where
  "Document = \<lparr>docs = db_documents, put = (\<lambda>xs w. w\<lparr>db_documents := xs\<rparr>), cast = documentSchema,
               collides = (\<lambda>a b. doc_id a = doc_id b
                             \<or> (doc_id a = doc_id b \<and> doc_createdAt a = doc_createdAt b))\<rparr>"

definition Suggestion :: "(ISuggestion, ISuggestion) model" where
  "Suggestion = \<lparr>docs = db_suggestions, put = (\<lambda>xs w. w\<lparr>db_suggestions := xs\<rparr>),
                 cast = suggestionSchema, collides = (\<lambda>a b. sug_id a = sug_id b)\<rparr>"

definition Stream :: "(IStream, IStream) model" where
  "Stream = \<lparr>docs = db_streams, put = (\<lambda>xs w. w\<lparr>db_streams := xs\<rparr>), cast = streamSchema,
             collides = (\<lambda>a b. stream_id a = stream_id b)\<rparr>"

section \<open>The store's operations\<close>

text \<open>
  Each operation is one request. A query's filter is a predicate on documents; what the
  query does to the matching documents before it returns them (sort, limit, select) is
  the function \<open>post\<close>.
\<close>

definition find_exec :: "('i, 'a) model \<Rightarrow> ('a \<Rightarrow> bool) \<Rightarrow> ('a list \<Rightarrow> 'b) \<Rightarrow> 'b io" where
  "find_exec M p post = request (\<lambda>w. (Inr (post (filter p (docs M w))), w))"

definition findOne :: "('i, 'a) model \<Rightarrow> ('a \<Rightarrow> bool) \<Rightarrow> 'a option io" where
  "findOne M p = request (\<lambda>w. (Inr (List.find p (docs M w)), w))"

definition countDocuments :: "('i, 'a) model \<Rightarrow> ('a \<Rightarrow> bool) \<Rightarrow> nat io" where
  "countDocuments M p = request (\<lambda>w. (Inr (length (filter p (docs M w))), w))"

text \<open>\<open>deleteMany\<close> removes every match and reports how many (\<open>deletedCount\<close>).\<close>

definition deleteMany :: "('i, 'a) model \<Rightarrow> ('a \<Rightarrow> bool) \<Rightarrow> nat io" where
  "deleteMany M p =
     request (\<lambda>w. (Inr (length (filter p (docs M w))),
                   put M (filter (\<lambda>d. \<not> p d) (docs M w)) w))"

fun removeFirst :: "('a \<Rightarrow> bool) \<Rightarrow> 'a list \<Rightarrow> 'a list" where
  "removeFirst p [] = []"
| "removeFirst p (x # xs) = (if p x then xs else x # removeFirst p xs)"

fun updateFirst :: "('a \<Rightarrow> bool) \<Rightarrow> ('a \<Rightarrow> 'a) \<Rightarrow> 'a list \<Rightarrow> 'a list" where
  "updateFirst p f [] = []"
| "updateFirst p f (x # xs) = (if p x then f x # xs else x # updateFirst p f xs)"

definition matched :: "('a \<Rightarrow> bool) \<Rightarrow> 'a list \<Rightarrow> nat" where
  "matched p xs = (if list_ex p xs then 1 else 0)"

text \<open>\<open>deleteOne\<close> and \<open>updateOne\<close> touch the first match only.\<close>

definition deleteOne :: "('i, 'a) model \<Rightarrow> ('a \<Rightarrow> bool) \<Rightarrow> nat io" where
  "deleteOne M p =
     request (\<lambda>w. (Inr (matched p (docs M w)), put M (removeFirst p (docs M w)) w))"

definition updateOne :: "('i, 'a) model \<Rightarrow> ('a \<Rightarrow> bool) \<Rightarrow> ('a \<Rightarrow> 'a) \<Rightarrow> nat io" where
  "updateOne M p f =
     request (\<lambda>w. (Inr (matched p (docs M w)), put M (updateFirst p f (docs M w)) w))"

text \<open>
  \<open>create\<close> validates the document against the schema before anything is sent; the store
  then rejects it when it collides with a stored document on a unique index.
\<close>

definition create :: "('i, 'a) model \<Rightarrow> 'i \<Rightarrow> 'a io" where
  "create M d w =
     (case cast M (next_oid w) d of
        Inl paths \<Rightarrow> (Inl (StoreError (ValidationError paths)), w)
      | Inr x \<Rightarrow>
          request (\<lambda>w'. if list_ex (collides M x) (docs M w')
                        then (Inl (StoreError DuplicateKeyError), w')
                        else (Inr x, (put M (docs M w' @ [x]) w')\<lparr>next_oid := Suc (next_oid w')\<rparr>)) w)"

fun castAll :: "(objectId \<Rightarrow> 'i \<Rightarrow> string list + 'a) \<Rightarrow> objectId \<Rightarrow> 'i list \<Rightarrow> string list + 'a list" where
  "castAll c oid [] = Inr []"
| "castAll c oid (d # ds) =
     (case c oid d of
        Inl paths \<Rightarrow> Inl paths
      | Inr x \<Rightarrow> (case castAll c (Suc oid) ds of Inl paths \<Rightarrow> Inl paths | Inr xs \<Rightarrow> Inr (x # xs)))"

fun insertOrdered :: "('a \<Rightarrow> 'a \<Rightarrow> bool) \<Rightarrow> 'a list \<Rightarrow> 'a list \<Rightarrow> 'a list \<times> bool" where
  "insertOrdered coll [] stored = (stored, True)"
| "insertOrdered coll (x # xs) stored =
     (if list_ex (coll x) stored then (stored, False) else insertOrdered coll xs (stored @ [x]))"

text \<open>
  \<open>insertMany\<close> (ordered): nothing is sent unless every document is valid; the store
  inserts them in order and stops at the first duplicate key.
\<close>

definition insertMany :: "('i, 'a) model \<Rightarrow> 'i list \<Rightarrow> 'a list io" where
  "insertMany M ds w =
     (case castAll (cast M) (next_oid w) ds of
        Inl paths \<Rightarrow> (Inl (StoreError (ValidationError paths)), w)
      | Inr xs \<Rightarrow>
          request (\<lambda>w'. case insertOrdered (collides M) xs (docs M w') of
                          (stored, ok) \<Rightarrow>
                            (if ok then Inr xs else Inl (StoreError DuplicateKeyError),
                             (put M stored w')\<lparr>next_oid := next_oid w' + length xs\<rparr>)) w)"

definition sort_asc :: "('a \<Rightarrow> date) \<Rightarrow> 'a list \<Rightarrow> 'a list" where
  "sort_asc key xs = sort_key key xs"

definition sort_desc :: "('a \<Rightarrow> date) \<Rightarrow> 'a list \<Rightarrow> 'a list" where
  "sort_desc key xs = rev (sort_key key xs)"

text \<open>\<open>.limit(n)\<close>: a limit of 0 is no limit.\<close>

definition limit_docs :: "nat \<Rightarrow> 'a list \<Rightarrow> 'a list" where
  "limit_docs n xs = (if n = 0 then xs else take n xs)"

definition first :: "'a list \<Rightarrow> 'a option" where
  "first xs = (case xs of [] \<Rightarrow> None | x # _ \<Rightarrow> Some x)"

section \<open>The query functions (src/lib/db/queries.ts)\<close>

definition bad_request_database :: string where
  "bad_request_database = ''bad_request:database''"

definition not_found_database :: string where
  "not_found_database = ''not_found:database''"


text \<open>The object handed to \<open>User.create\<close> has an email and a password and no id.\<close>

definition createUser :: "environment \<Rightarrow> string \<Rightarrow> string \<Rightarrow> IUser io" where
  "createUser env email password =
     (let hashedPassword = generateHashedPassword env password in
      tryCatch bad_request_database ''Failed to create user''
        (create User \<lparr>given_id = None, given_email = Some email,
                      given_password = Some hashedPassword\<rparr>))"

fun decimal :: "nat \<Rightarrow> string" where
  "decimal n = (if n < 10 then [''0123456789'' ! n]
                else decimal (n div 10) @ [''0123456789'' ! (n mod 10)])"

declare decimal.simps [simp del]

definition numberToString :: "int \<Rightarrow> string" where
  "numberToString i = (if i < 0 then CHR ''-'' # decimal (nat (- i)) else decimal (nat i))"

text \<open>
  A returned object literal is the list of its fields with their values.
\<close>

type_synonym jsObject = "(string \<times> string) list"

definition createGuestUser :: "environment \<Rightarrow> jsObject list io" where
  "createGuestUser env =
     andThen (generateUUID env) (\<lambda>id'.
     andThen dateNow (\<lambda>t.
     let email = ''guest-'' @ numberToString t in
     andThen (generateUUID env) (\<lambda>u.
     let password = generateHashedPassword env u in
     tryCatch bad_request_database ''Failed to create guest user''
       (andThen (create User \<lparr>given_id = Some id', given_email = Some email,
                              given_password = Some password\<rparr>)
          (\<lambda>newUser. resolve [[(''id'', user_id newUser), (''email'', user_email newUser)]])))))"

definition saveChat :: "string \<Rightarrow> string \<Rightarrow> string \<Rightarrow> visibilityType \<Rightarrow> IChat io" where
  "saveChat id' userId title visibility =
     tryCatch bad_request_database ''Failed to save chat''
       (andThen dateNow (\<lambda>t.
          create Chat \<lparr>chat_oid = 0, chat_id = id', chat_createdAt = t, chat_title = title,
                       chat_userId = userId, chat_visibility = visibility\<rparr>))"

definition deleteChatById :: "string \<Rightarrow> string option io" where
  "deleteChatById id' =
     tryCatch bad_request_database ''Failed to delete chat by id''
       (andThen (deleteMany Vote (\<lambda>v. vote_chatId v = id')) (\<lambda>_.
        andThen (deleteMany Message (\<lambda>m. msg_chatId m = id')) (\<lambda>_.
        andThen (deleteMany Stream (\<lambda>s. stream_chatId s = id')) (\<lambda>_.
        andThen (deleteOne Chat (\<lambda>c. chat_id c = id')) (\<lambda>deletedCount.
        resolve (if deletedCount > 0 then Some id' else None))))))"

text \<open>
  \<open>if (startingAfter)\<close>: a cursor counts when it is neither null nor the empty string.
  The limit is a count of chats, a natural number.
\<close>

definition truthy :: "string option \<Rightarrow> string option" where
  "truthy s = (case s of None \<Rightarrow> None | Some v \<Rightarrow> if v = [] then None else Some v)"

record chatsPage =
  chats :: "IChat list"
  hasMore :: bool

text \<open>
  The cursor part of the query: the filter on \<open>createdAt\<close> that the selected chat adds to
  \<open>{ userId: id }\<close>, or the exception thrown when no chat has the cursor's id.
\<close>

definition cursorQuery :: "string \<Rightarrow> string option \<Rightarrow> string option \<Rightarrow> (IChat \<Rightarrow> bool) io" where
  "cursorQuery id' startingAfter endingBefore =
     (case truthy startingAfter of
        Some sa \<Rightarrow>
          andThen (findOne Chat (\<lambda>c. chat_id c = sa)) (\<lambda>selectedChat.
            case selectedChat of
              None \<Rightarrow> throw (ChatSDKError not_found_database (''Chat with id '' @ sa @ '' not found''))
            | Some sc \<Rightarrow> resolve (\<lambda>c. chat_userId c = id' \<and> chat_createdAt sc < chat_createdAt c))
      | None \<Rightarrow>
          (case truthy endingBefore of
             Some eb \<Rightarrow>
               andThen (findOne Chat (\<lambda>c. chat_id c = eb)) (\<lambda>selectedChat.
                 case selectedChat of
                   None \<Rightarrow> throw (ChatSDKError not_found_database (''Chat with id '' @ eb @ '' not found''))
                 | Some sc \<Rightarrow> resolve (\<lambda>c. chat_userId c = id' \<and> chat_createdAt c < chat_createdAt sc))
           | None \<Rightarrow> resolve (\<lambda>c. chat_userId c = id')))"

definition getChatsByUserId :: "string \<Rightarrow> nat \<Rightarrow> string option \<Rightarrow> string option \<Rightarrow> chatsPage io" where
  "getChatsByUserId id' limit startingAfter endingBefore =
     tryCatch bad_request_database ''Failed to get chats by user id''
       (let extendedLimit = limit + 1 in
        andThen (cursorQuery id' startingAfter endingBefore) (\<lambda>query.
        andThen (find_exec Chat query (\<lambda>xs. limit_docs extendedLimit (sort_desc chat_createdAt xs)))
          (\<lambda>filteredChats.
             let hasMore = limit < length filteredChats in
             resolve \<lparr>chats = (if hasMore then take limit filteredChats else filteredChats),
                      hasMore = hasMore\<rparr>)))"




datatype voteResult = Updated nat | Created IVote

text \<open>
  The existing vote is looked up by \<open>messageId\<close> alone; the update's filter has
  \<open>messageId\<close> and \<open>chatId\<close>.
\<close>

definition voteMessage :: "string \<Rightarrow> string \<Rightarrow> voteType \<Rightarrow> voteResult io" where
  "voteMessage chatId messageId type =
     tryCatch bad_request_database ''Failed to vote message''
       (andThen (findOne Vote (\<lambda>v. vote_messageId v = messageId)) (\<lambda>existingVote.
          case existingVote of
            Some _ \<Rightarrow>
              andThen (updateOne Vote (\<lambda>v. vote_messageId v = messageId \<and> vote_chatId v = chatId)
                         (\<lambda>v. v\<lparr>vote_isUpvoted := (type = Up)\<rparr>))
                (\<lambda>n. resolve (Updated n))
          | None \<Rightarrow>
              andThen (create Vote \<lparr>vote_oid = 0, vote_chatId = chatId, vote_messageId = messageId,
                                    vote_isUpvoted = (type = Up)\<rparr>)
                (\<lambda>v. resolve (Created v))))"





definition deleteDocumentsByIdAfterTimestamp :: "string \<Rightarrow> date \<Rightarrow> string option io" where
  "deleteDocumentsByIdAfterTimestamp id' timestamp =
     tryCatch bad_request_database ''Failed to delete documents by id after timestamp''
       (andThen (deleteMany Suggestion
                   (\<lambda>s. sug_documentId s = id' \<and> timestamp < sug_documentCreatedAt s)) (\<lambda>_.
        andThen (deleteMany Document (\<lambda>d. doc_id d = id' \<and> timestamp < doc_createdAt d))
          (\<lambda>deletedCount. resolve (if deletedCount > 0 then Some id' else None))))"






text \<open>
  The user's chats are selected down to their \<open>_id\<close>, and the resulting documents are the
  \<open>$in\<close> list that \<open>chatId\<close> (a String path) is matched against: the store casts each
  of them to a string (\<open>docToString\<close>). The window is a whole number of hours; when its
  start is no valid date, the count query is refused at the cast of \<open>createdAt\<close>, after
  the chats were fetched.
\<close>

definition getMessageCountByUserId :: "environment \<Rightarrow> string \<Rightarrow> int \<Rightarrow> nat io" where
  "getMessageCountByUserId env id' differenceInHours =
     tryCatch bad_request_database ''Failed to get message count by user id''
       (andThen dateNow (\<lambda>t.
        let twentyFourHoursAgo = t - differenceInHours * 60 * 60 * 1000 in
        andThen (find_exec Chat (\<lambda>c. chat_userId c = id') (map chat_oid)) (\<lambda>userChats.
        if validDate twentyFourHoursAgo then
          countDocuments Message
            (\<lambda>m. msg_role m = ''user'' \<and> twentyFourHoursAgo \<le> msg_createdAt m
                  \<and> msg_chatId m \<in> set (map (docToString env) userChats))
        else throw (StoreError (CastError ''createdAt'')))))"



section \<open>The API surface as a whole\<close>







text \<open>The next request to the store is one that fails.\<close>

definition nextRequestFails :: "world \<Rightarrow> bool" where
  "nextRequestFails w = (case faults w of [] \<Rightarrow> False | f # fs \<Rightarrow> f)"


text \<open>
  A computation that returns normally only when the store served every operation it
  awaited: the fates it used up are all \<open>False\<close>.
\<close>



section \<open>What the specification counts\<close>

text \<open>
  The message count in the specification's words: the messages with role "user", created
  within the last \<open>h\<close> hours, whose \<open>chatId\<close> is the id of a chat owned by the user.
\<close>

definition spec_messageCount :: "string \<Rightarrow> int \<Rightarrow> world \<Rightarrow> nat" where
  "spec_messageCount u h w =
     length (filter (\<lambda>m. msg_role m = ''user'' \<and> now w - h * 60 * 60 * 1000 \<le> msg_createdAt m
                          \<and> list_ex (\<lambda>c. chat_id c = msg_chatId m \<and> chat_userId c = u) (db_chats w))
               (db_messages w))"

text \<open>The chat a cursor id selects, and on which side of it the page lies.\<close>

datatype cursor = NoCursor | After date | Before date | Missing

definition cursorOf :: "string option \<Rightarrow> string option \<Rightarrow> world \<Rightarrow> cursor" where
  "cursorOf startingAfter endingBefore w =
     (case truthy startingAfter of
        Some sa \<Rightarrow> (case List.find (\<lambda>c. chat_id c = sa) (db_chats w) of
                      None \<Rightarrow> Missing | Some sc \<Rightarrow> After (chat_createdAt sc))
      | None \<Rightarrow>
          (case truthy endingBefore of
             Some eb \<Rightarrow> (case List.find (\<lambda>c. chat_id c = eb) (db_chats w) of
                           None \<Rightarrow> Missing | Some sc \<Rightarrow> Before (chat_createdAt sc))
           | None \<Rightarrow> NoCursor))"

fun underCursor :: "cursor \<Rightarrow> IChat \<Rightarrow> bool" where
  "underCursor NoCursor c = True"
| "underCursor (After t) c = (t < chat_createdAt c)"
| "underCursor (Before t) c = (chat_createdAt c < t)"
| "underCursor Missing c = False"

text \<open>The user's chats that match under the cursor filter.\<close>

definition matchingChats :: "string \<Rightarrow> string option \<Rightarrow> string option \<Rightarrow> world \<Rightarrow> IChat list" where
  "matchingChats u startingAfter endingBefore w =
     filter (\<lambda>c. chat_userId c = u \<and> underCursor (cursorOf startingAfter endingBefore w) c)
       (db_chats w)"

text \<open>The Vote records of a (chatId, messageId) pair.\<close>

definition votesFor :: "string \<Rightarrow> string \<Rightarrow> world \<Rightarrow> IVote list" where
  "votesFor chatId messageId w =
     filter (\<lambda>v. vote_messageId v = messageId \<and> vote_chatId v = chatId) (db_votes w)"

text \<open>The Vote records on a message that sit under another chat.\<close>

definition votesElsewhere :: "string \<Rightarrow> string \<Rightarrow> world \<Rightarrow> IVote list" where
  "votesElsewhere chatId messageId w =
     filter (\<lambda>v. vote_messageId v = messageId \<and> vote_chatId v \<noteq> chatId) (db_votes w)"

text \<open>What one successful vote does to the Vote collection.\<close>

definition voted :: "string \<Rightarrow> string \<Rightarrow> voteType \<Rightarrow> objectId \<Rightarrow> IVote list \<Rightarrow> IVote list" where
  "voted chatId messageId type oid xs =
     (case List.find (\<lambda>v. vote_messageId v = messageId) xs of
        Some _ \<Rightarrow> updateFirst (\<lambda>v. vote_messageId v = messageId \<and> vote_chatId v = chatId)
                    (\<lambda>v. v\<lparr>vote_isUpvoted := (type = Up)\<rparr>) xs
      | None \<Rightarrow> xs @ [\<lparr>vote_oid = oid, vote_chatId = chatId, vote_messageId = messageId,
                         vote_isUpvoted = (type = Up)\<rparr>])"

section \<open>Concrete states\<close>

definition sampleEnv :: environment where
  "sampleEnv =
     \<lparr>generateHashedPassword = (\<lambda>p. ''hashed:'' @ p),
      uuidOf = (\<lambda>n. ''uuid-'' @ decimal n),
      oidToString = decimal,
      docToString = (\<lambda>n. ''{ _id: new ObjectId('' @ decimal n @ '') }'')\<rparr>"

definition emptyWorld :: world where
  "emptyWorld =
     \<lparr>db_users = [], db_chats = [], db_messages = [], db_votes = [], db_documents = [],
      db_suggestions = [], db_streams = [], next_oid = 0, now = 1700000000000, entropy = 0,
      faults = []\<rparr>"

definition chatOf :: "objectId \<Rightarrow> string \<Rightarrow> string \<Rightarrow> date \<Rightarrow> IChat" where
  "chatOf oid id' userId createdAt =
     \<lparr>chat_oid = oid, chat_id = id', chat_createdAt = createdAt, chat_title = ''a chat'',
      chat_userId = userId, chat_visibility = Private\<rparr>"

definition messageOf :: "objectId \<Rightarrow> string \<Rightarrow> string \<Rightarrow> date \<Rightarrow> IDBMessage" where
  "messageOf oid id' chatId createdAt =
     \<lparr>msg_oid = oid, msg_id = id', msg_chatId = chatId, msg_role = ''user'', msg_parts = ''[]'',
      msg_attachments = ''[]'', msg_createdAt = createdAt\<rparr>"

text \<open>One chat of user u1 holding one fresh user message; and the same with the chat's id changed.\<close>

definition countWorld :: world where
  "countWorld =
     emptyWorld\<lparr>db_chats := [chatOf 0 ''c1'' ''u1'' 1699999000000],
                db_messages := [messageOf 1 ''m1'' ''c1'' 1699999999000], next_oid := 2\<rparr>"

definition countWorldOther :: world where
  "countWorldOther =
     emptyWorld\<lparr>db_chats := [chatOf 0 ''c2'' ''u1'' 1699999000000],
                db_messages := [messageOf 1 ''m1'' ''c1'' 1699999999000], next_oid := 2\<rparr>"

text \<open>Three chats of user u1 and one of user u2.\<close>

definition pagingWorld :: world where
  "pagingWorld =
     emptyWorld\<lparr>db_chats := [chatOf 0 ''c1'' ''u1'' 100, chatOf 1 ''c2'' ''u1'' 300,
                              chatOf 2 ''c3'' ''u2'' 250, chatOf 3 ''c4'' ''u1'' 200],
                next_oid := 4\<rparr>"

text \<open>Chat c1 with a vote, a message and a stream, next to a vote of chat c2.\<close>

definition cascadeWorld :: world where
  "cascadeWorld =
     emptyWorld\<lparr>db_chats := [chatOf 0 ''c1'' ''u1'' 100, chatOf 1 ''c2'' ''u1'' 200],
                db_messages := [messageOf 2 ''m1'' ''c1'' 110],
                db_votes := [\<lparr>vote_oid = 3, vote_chatId = ''c1'', vote_messageId = ''m1'',
                               vote_isUpvoted = True\<rparr>,
                             \<lparr>vote_oid = 4, vote_chatId = ''c2'', vote_messageId = ''m9'',
                               vote_isUpvoted = False\<rparr>],
                db_streams := [\<lparr>stream_oid = 5, stream_id = ''s1'', stream_chatId = ''c1'',
                                 stream_createdAt = 120\<rparr>],
                next_oid := 6\<rparr>"

text \<open>A vote on message m1 recorded under chat c2.\<close>

definition strayVoteWorld :: world where
  "strayVoteWorld =
     emptyWorld\<lparr>db_votes := [\<lparr>vote_oid = 0, vote_chatId = ''c2'', vote_messageId = ''m1'',
                               vote_isUpvoted = True\<rparr>],
                next_oid := 1\<rparr>"

text \<open>Document d1 created at 200 with a suggestion on that version, and document d2.\<close>

definition documentOf :: "objectId \<Rightarrow> string \<Rightarrow> date \<Rightarrow> IDocument" where
  "documentOf oid id' createdAt =
     \<lparr>doc_oid = oid, doc_id = id', doc_createdAt = createdAt, doc_title = ''a document'',
      doc_content = Some ''text'', doc_kind = Kind_text, doc_userId = ''u1''\<rparr>"

definition suggestionOf :: "objectId \<Rightarrow> string \<Rightarrow> string \<Rightarrow> date \<Rightarrow> ISuggestion" where
  "suggestionOf oid id' documentId documentCreatedAt =
     \<lparr>sug_oid = oid, sug_id = id', sug_documentId = documentId,
      sug_documentCreatedAt = documentCreatedAt, sug_originalText = ''teh'',
      sug_suggestedText = ''the'', sug_description = None, sug_isResolved = False,
      sug_userId = ''u1'', sug_createdAt = documentCreatedAt + 1\<rparr>"

definition documentWorld :: world where
  "documentWorld =
     emptyWorld\<lparr>db_documents := [documentOf 0 ''d1'' 200, documentOf 1 ''d2'' 50],
                db_suggestions := [suggestionOf 2 ''s1'' ''d1'' 200, suggestionOf 3 ''s2'' ''d2'' 50],
                next_oid := 4\<rparr>"

text \<open>A user with email a@b.c is stored.\<close>

definition userWorld :: world where
  "userWorld =
     emptyWorld\<lparr>db_users := [\<lparr>user_oid = 0, user_id = ''u1'', user_email = ''a@b.c'',
                               user_password = Some ''hashed:pw''\<rparr>],
                next_oid := 1\<rparr>"



section \<open>Sequencing: what a successful run went through\<close>

lemma tryCatch_Inr: "tryCatch k m body w = (Inr v, w') \<longleftrightarrow> body w = (Inr v, w')"
  by (auto simp: tryCatch_def split: prod.splits sum.splits)

lemma andThen_Inr:
  "andThen m f w = (Inr v, w') \<longleftrightarrow> (\<exists>u w1. m w = (Inr u, w1) \<and> f u w1 = (Inr v, w'))"
  by (auto simp: andThen_def split: prod.splits sum.splits)

lemma resolve_Inr: "resolve x w = (Inr v, w') \<longleftrightarrow> v = x \<and> w' = w"
  by (auto simp: resolve_def)

lemma request_Inr:
  "request op w = (Inr v, w') \<Longrightarrow> op (w\<lparr>faults := tl (faults w)\<rparr>) = (Inr v, w')"
  by (cases w) (auto simp: request_def split: list.splits if_splits)

lemma deleteMany_Inr:
  "deleteMany M p w = (Inr n, w') \<Longrightarrow>
     w' = put M (filter (\<lambda>d. \<not> p d) (docs M (w\<lparr>faults := tl (faults w)\<rparr>)))
            (w\<lparr>faults := tl (faults w)\<rparr>)"
  unfolding deleteMany_def by (drule request_Inr) auto

lemma deleteOne_Inr:
  "deleteOne M p w = (Inr n, w') \<Longrightarrow>
     w' = put M (removeFirst p (docs M (w\<lparr>faults := tl (faults w)\<rparr>)))
            (w\<lparr>faults := tl (faults w)\<rparr>)"
  unfolding deleteOne_def by (drule request_Inr) auto

lemma find_exec_Inr:
  "find_exec M p post w = (Inr v, w') \<Longrightarrow>
     v = post (filter p (docs M (w\<lparr>faults := tl (faults w)\<rparr>)))
     \<and> w' = w\<lparr>faults := tl (faults w)\<rparr>"
  unfolding find_exec_def by (drule request_Inr) auto

lemma findOne_Inr:
  "findOne M p w = (Inr v, w') \<Longrightarrow>
     v = List.find p (docs M (w\<lparr>faults := tl (faults w)\<rparr>))
     \<and> w' = w\<lparr>faults := tl (faults w)\<rparr>"
  unfolding findOne_def by (drule request_Inr) auto

lemma create_Inr:
  assumes "create M d w = (Inr x, w')"
  shows "cast M (next_oid w) d = Inr x
       \<and> w' = (put M (docs M (w\<lparr>faults := tl (faults w)\<rparr>) @ [x]) (w\<lparr>faults := tl (faults w)\<rparr>))
                \<lparr>next_oid := Suc (next_oid (w\<lparr>faults := tl (faults w)\<rparr>))\<rparr>"
proof (cases "cast M (next_oid w) d")
  case (Inl paths)
  with assms show ?thesis by (simp add: create_def)
next
  case (Inr y)
  with assms have "request (\<lambda>w'. if list_ex (collides M y) (docs M w')
                        then (Inl (StoreError DuplicateKeyError), w')
                        else (Inr y, (put M (docs M w' @ [y]) w')\<lparr>next_oid := Suc (next_oid w')\<rparr>)) w
                   = (Inr x, w')"
    by (simp add: create_def)
  from request_Inr [OF this] Inr show ?thesis
    by (auto split: if_splits)
qed

lemma checked_Inr: "checked errors d = Inr x \<Longrightarrow> x = d"
  by (simp add: checked_def split: if_splits)

text \<open>The definitions a run on a concrete state unfolds.\<close>

lemmas eval_defs =
  tryCatch_def andThen_def resolve_def throw_def request_def dateNow_def generateUUID_def
  find_exec_def findOne_def countDocuments_def deleteMany_def deleteOne_def updateOne_def
  create_def insertMany_def matched_def sort_asc_def sort_desc_def limit_docs_def first_def
  User_def Chat_def Message_def Vote_def Document_def Suggestion_def Stream_def
  userSchema_def chatSchema_def messageSchema_def voteSchema_def documentSchema_def
  suggestionSchema_def streamSchema_def checked_def required_def requiredOpt_def maxlength_def
  orEmpty_def truthy_def bad_request_database_def not_found_database_def validDate_def
  emptyWorld_def chatOf_def messageOf_def documentOf_def suggestionOf_def

section \<open>Pagination cursors that match no chat\<close>

text \<open>
  Whatever the store holds and whatever the fate of the requests: when the
  \<open>startingAfter\<close> cursor selects no chat, the error that leaves \<open>getChatsByUserId\<close> has the
  kind \<open>bad_request:database\<close>. The \<open>not_found:database\<close> error is thrown inside the
  \<open>try\<close> block, and the block's own \<open>catch\<close> replaces it.
\<close>

lemma getChatsByUserId_missing_cursor:
  assumes "truthy startingAfter = Some sa"
    and "List.find (\<lambda>c. chat_id c = sa) (db_chats w) = None"
  shows "fst (getChatsByUserId id' limit startingAfter endingBefore w) =
           Inl (ChatSDKError ''bad_request:database'' ''Failed to get chats by user id'')"
  using assms
  by (simp add: getChatsByUserId_def cursorQuery_def tryCatch_def andThen_def throw_def
      findOne_def request_def Chat_def bad_request_database_def
      split: list.splits prod.splits sum.splits)

lemma getChatsByUserId_missing_endingBefore:
  assumes "truthy startingAfter = None" and "truthy endingBefore = Some eb"
    and "List.find (\<lambda>c. chat_id c = eb) (db_chats w) = None"
  shows "fst (getChatsByUserId id' limit startingAfter endingBefore w) =
           Inl (ChatSDKError ''bad_request:database'' ''Failed to get chats by user id'')"
  using assms
  by (simp add: getChatsByUserId_def cursorQuery_def tryCatch_def andThen_def throw_def
      findOne_def request_def Chat_def bad_request_database_def
      split: list.splits prod.splits sum.splits)

text \<open>
  Claim C1 (for a cursor id that matches no Chat record the function raises an error of
  kind \<open>not_found:database\<close>, not \<open>bad_request:database\<close>), run on the empty store with the
  cursor \<open>startingAfter = "missing"\<close>: the function raises \<open>bad_request:database\<close> with
  the message of its \<open>catch\<close> block.
\<close>

theorem getChatsByUserId_missing_cursor_failing_input:
  "getChatsByUserId ''u1'' 10 (Some ''missing'') None emptyWorld =
     (Inl (ChatSDKError ''bad_request:database'' ''Failed to get chats by user id''), emptyWorld)"
  by (simp add: getChatsByUserId_def cursorQuery_def eval_defs)

section \<open>The message count of a user\<close>

text \<open>
  The count does not look at the \<open>id\<close> of the user's chats at all: the query selects the
  chats down to \<open>_id\<close>. For two stores that differ only in the \<open>id\<close> of the user's chat the
  function returns the same count, whatever the store's string casts are, while the
  specification counts 1 in the first and 0 in the second.
\<close>

lemma getMessageCountByUserId_ignores_chat_id:
  "fst (getMessageCountByUserId env ''u1'' 24 countWorld)
     = fst (getMessageCountByUserId env ''u1'' 24 countWorldOther)
   \<and> spec_messageCount ''u1'' 24 countWorld = 1
   \<and> spec_messageCount ''u1'' 24 countWorldOther = 0"
  by (simp add: getMessageCountByUserId_def spec_messageCount_def countWorld_def
      countWorldOther_def eval_defs)

text \<open>
  Claim C2 (the function returns exactly the number of Message records with role "user",
  created within the last h hours, whose chatId belongs to a chat owned by the user), run
  on a store with one chat c1 of user u1 and one user message of chat c1 created a second
  ago, with a window of 24 hours: the function returns 0, and the specification counts 1.
\<close>

theorem getMessageCountByUserId_failing_input:
  "fst (getMessageCountByUserId sampleEnv ''u1'' 24 countWorld) = Inr 0
   \<and> spec_messageCount ''u1'' 24 countWorld = 1"
  by (simp add: getMessageCountByUserId_def spec_messageCount_def countWorld_def sampleEnv_def
      eval_defs)

section \<open>Creating users\<close>

text \<open>
  Claim C9: for every email, password and state, \<open>createUser\<close> raises a
  \<open>bad_request:database\<close> error. It hands \<open>User.create\<close> no \<open>id\<close>, which the schema requires,
  so validation rejects the document before anything is sent, and the state (the User
  collection included) is left as it was.
\<close>

theorem createUser_always_fails:
  "createUser env email password w =
     (Inl (ChatSDKError ''bad_request:database'' ''Failed to create user''), w)"
  by (simp add: createUser_def tryCatch_def create_def User_def userSchema_def checked_def
      requiredOpt_def bad_request_database_def)

text \<open>
  The unique index on \<open>email\<close> by itself: in a state that holds a user with the email,
  \<open>User.create\<close> fails for any document with that email, and stores nothing.
\<close>

lemma create_User_duplicate_email:
  assumes "list_ex (\<lambda>u. user_email u = email) (db_users w)" and "given_email d = Some email"
  shows "isl (fst (create User d w)) \<and> db_users (snd (create User d w)) = db_users w"
proof (cases "userSchema (next_oid w) d")
  case (Inl paths)
  then show ?thesis by (simp add: create_def User_def)
next
  case (Inr x)
  then have "x = \<lparr>user_oid = next_oid w, user_id = orEmpty (given_id d),
                   user_email = orEmpty (given_email d), user_password = given_password d\<rparr>"
    unfolding userSchema_def by (rule checked_Inr)
  with assms(2) have "user_email x = email"
    by (simp add: orEmpty_def)
  moreover from assms(1) obtain u where u: "u \<in> set (db_users w)" "user_email u = email"
    by (auto simp: list_ex_iff)
  ultimately have "\<exists>u\<in>set (db_users w). user_id x = user_id u \<or> user_email x = user_email u"
    by (intro bexI [of _ u]) simp_all
  then have "list_ex (\<lambda>u. user_id x = user_id u \<or> user_email x = user_email u) (db_users w)"
    by (simp add: list_ex_iff)
  with Inr show ?thesis
    by (cases w) (auto simp: create_def User_def request_def split: list.splits)
qed

text \<open>
  Claim C8: in a state where a User record with email e exists, \<open>createUser e p\<close> raises a
  \<open>bad_request:database\<close> error and the User collection is unchanged, so no second
  record with email e is added.
\<close>

theorem createUser_duplicate_email:
  assumes "list_ex (\<lambda>u. user_email u = email) (db_users w)"
  shows "fst (createUser env email password w)
           = Inl (ChatSDKError ''bad_request:database'' ''Failed to create user'')
       \<and> db_users (snd (createUser env email password w)) = db_users w"
  by (simp add: createUser_def tryCatch_def create_def User_def userSchema_def checked_def
      requiredOpt_def bad_request_database_def)

theorem createUser_duplicate_email_witness:
  "list_ex (\<lambda>u. user_email u = ''a@b.c'') (db_users userWorld)
   \<and> fst (createUser sampleEnv ''a@b.c'' ''pw'' userWorld)
       = Inl (ChatSDKError ''bad_request:database'' ''Failed to create user'')
   \<and> length (filter (\<lambda>u. user_email u = ''a@b.c'')
        (db_users (snd (createUser sampleEnv ''a@b.c'' ''pw'' userWorld)))) = 1"
proof -
  have h: "list_ex (\<lambda>u. user_email u = ''a@b.c'') (db_users userWorld)"
    by (simp add: userWorld_def emptyWorld_def)
  have "length (filter (\<lambda>u. user_email u = ''a@b.c'') (db_users userWorld)) = 1"
    by (simp add: userWorld_def emptyWorld_def)
  with h createUser_duplicate_email [OF h, of sampleEnv "''pw''"] show ?thesis by simp
qed

section \<open>Deleting a chat\<close>

text \<open>
  The schema puts a unique index on the \<open>id\<close> of a chat, so the states of the store have
  no two chats with one id. \<open>saveChat\<close>, the one function that inserts chats, keeps it so.
\<close>

lemma saveChat_keeps_ids_distinct:
  assumes "distinct (map chat_id (db_chats w))"
  shows "distinct (map chat_id (db_chats (snd (saveChat id' userId title visibility w))))"
  using assms
  by (auto simp: saveChat_def tryCatch_def andThen_def dateNow_def create_def request_def
      Chat_def chatSchema_def checked_def list_ex_iff
      split: sum.splits prod.splits list.splits if_splits)

lemma filter_removeFirst_distinct:
  "distinct (map key xs) \<Longrightarrow> filter (\<lambda>x. key x = k) (removeFirst (\<lambda>x. key x = k) xs) = []"
proof (induction xs)
  case Nil
  then show ?case by simp
next
  case (Cons a xs)
  show ?case
  proof (cases "key a = k")
    case True
    with Cons.prems have "k \<notin> key ` set xs" by simp
    then have "filter (\<lambda>x. key x = k) xs = []"
      by (auto simp: filter_empty_conv)
    with True show ?thesis by simp
  next
    case False
    with Cons show ?thesis by simp
  qed
qed

text \<open>
  Claim C4: after \<open>deleteChatById\<close> has completed successfully on a state of the store
  (chat ids unique, as the index on \<open>Chat.id\<close> has them), no Vote, Message or Stream record
  with \<open>chatId\<close> equal to the id remains, and no Chat record with that id remains.
\<close>

theorem deleteChatById_cascade:
  assumes "distinct (map chat_id (db_chats w))"
    and "deleteChatById id' w = (Inr r, w')"
  shows "filter (\<lambda>v. vote_chatId v = id') (db_votes w') = []
       \<and> filter (\<lambda>m. msg_chatId m = id') (db_messages w') = []
       \<and> filter (\<lambda>s. stream_chatId s = id') (db_streams w') = []
       \<and> filter (\<lambda>c. chat_id c = id') (db_chats w') = []"
proof -
  from assms(2) obtain n1 w1 n2 w2 n3 w3 n4 where
    s1: "deleteMany Vote (\<lambda>v. vote_chatId v = id') w = (Inr n1, w1)" and
    s2: "deleteMany Message (\<lambda>m. msg_chatId m = id') w1 = (Inr n2, w2)" and
    s3: "deleteMany Stream (\<lambda>s. stream_chatId s = id') w2 = (Inr n3, w3)" and
    s4: "deleteOne Chat (\<lambda>c. chat_id c = id') w3 = (Inr n4, w')"
    unfolding deleteChatById_def tryCatch_Inr andThen_Inr resolve_Inr by blast
  note d1 = deleteMany_Inr [OF s1] and d2 = deleteMany_Inr [OF s2]
    and d3 = deleteMany_Inr [OF s3] and d4 = deleteOne_Inr [OF s4]
  have chats3: "db_chats w3 = db_chats w"
    by (simp add: d1 d2 d3 Vote_def Message_def Stream_def)
  have "filter (\<lambda>v. vote_chatId v = id') (db_votes w') = []"
    by (simp add: d1 d2 d3 d4 Vote_def Message_def Stream_def Chat_def)
  moreover have "filter (\<lambda>m. msg_chatId m = id') (db_messages w') = []"
    by (simp add: d2 d3 d4 Vote_def Message_def Stream_def Chat_def)
  moreover have "filter (\<lambda>s. stream_chatId s = id') (db_streams w') = []"
    by (simp add: d3 d4 Vote_def Message_def Stream_def Chat_def)
  moreover have "filter (\<lambda>c. chat_id c = id') (db_chats w') = []"
    using assms(1) chats3 by (simp add: d4 Chat_def filter_removeFirst_distinct)
  ultimately show ?thesis by simp
qed

theorem deleteChatById_cascade_witness:
  "distinct (map chat_id (db_chats cascadeWorld))
   \<and> fst (deleteChatById ''c1'' cascadeWorld) = Inr (Some ''c1'')
   \<and> filter (\<lambda>v. vote_chatId v = ''c1'') (db_votes (snd (deleteChatById ''c1'' cascadeWorld))) = []
   \<and> filter (\<lambda>m. msg_chatId m = ''c1'') (db_messages (snd (deleteChatById ''c1'' cascadeWorld))) = []
   \<and> filter (\<lambda>s. stream_chatId s = ''c1'') (db_streams (snd (deleteChatById ''c1'' cascadeWorld))) = []
   \<and> filter (\<lambda>c. chat_id c = ''c1'') (db_chats (snd (deleteChatById ''c1'' cascadeWorld))) = []"
proof -
  have d: "distinct (map chat_id (db_chats cascadeWorld))"
    by (simp add: cascadeWorld_def eval_defs)
  have f: "fst (deleteChatById ''c1'' cascadeWorld) = Inr (Some ''c1'')"
    by (simp add: deleteChatById_def cascadeWorld_def eval_defs)
  then have r: "deleteChatById ''c1'' cascadeWorld
                  = (Inr (Some ''c1''), snd (deleteChatById ''c1'' cascadeWorld))"
    by (simp add: prod_eq_iff)
  from deleteChatById_cascade [OF d r] d f show ?thesis by blast
qed

section \<open>Deleting the versions of a document after a timestamp\<close>

text \<open>
  Claim C6: after \<open>deleteDocumentsByIdAfterTimestamp\<close> has completed successfully, no
  Document record with that id and \<open>createdAt\<close> strictly after the timestamp remains, and
  no Suggestion record with that \<open>documentId\<close> and \<open>documentCreatedAt\<close> strictly after the
  timestamp remains.
\<close>

theorem deleteDocumentsByIdAfterTimestamp_cascade:
  assumes "deleteDocumentsByIdAfterTimestamp id' t w = (Inr r, w')"
  shows "filter (\<lambda>d. doc_id d = id' \<and> t < doc_createdAt d) (db_documents w') = []
       \<and> filter (\<lambda>s. sug_documentId s = id' \<and> t < sug_documentCreatedAt s) (db_suggestions w') = []"
proof -
  from assms obtain n1 w1 n2 where
    s1: "deleteMany Suggestion (\<lambda>s. sug_documentId s = id' \<and> t < sug_documentCreatedAt s) w = (Inr n1, w1)" and
    s2: "deleteMany Document (\<lambda>d. doc_id d = id' \<and> t < doc_createdAt d) w1 = (Inr n2, w')"
    unfolding deleteDocumentsByIdAfterTimestamp_def tryCatch_Inr andThen_Inr resolve_Inr by blast
  note d1 = deleteMany_Inr [OF s1] and d2 = deleteMany_Inr [OF s2]
  have "filter (\<lambda>d. doc_id d = id' \<and> t < doc_createdAt d) (db_documents w') = []"
    by (simp add: d2 Document_def)
  moreover have "filter (\<lambda>s. sug_documentId s = id' \<and> t < sug_documentCreatedAt s) (db_suggestions w') = []"
    by (simp add: d1 d2 Document_def Suggestion_def)
  ultimately show ?thesis by simp
qed

theorem deleteDocumentsByIdAfterTimestamp_cascade_witness:
  "fst (deleteDocumentsByIdAfterTimestamp ''d1'' 100 documentWorld) = Inr (Some ''d1'')
   \<and> filter (\<lambda>d. doc_id d = ''d1'' \<and> 100 < doc_createdAt d)
        (db_documents (snd (deleteDocumentsByIdAfterTimestamp ''d1'' 100 documentWorld))) = []
   \<and> filter (\<lambda>s. sug_documentId s = ''d1'' \<and> 100 < sug_documentCreatedAt s)
        (db_suggestions (snd (deleteDocumentsByIdAfterTimestamp ''d1'' 100 documentWorld))) = []
   \<and> length (db_documents documentWorld) = 2
   \<and> length (db_documents (snd (deleteDocumentsByIdAfterTimestamp ''d1'' 100 documentWorld))) = 1"
proof -
  have f: "fst (deleteDocumentsByIdAfterTimestamp ''d1'' 100 documentWorld) = Inr (Some ''d1'')"
    by (simp add: deleteDocumentsByIdAfterTimestamp_def documentWorld_def eval_defs)
  then have r: "deleteDocumentsByIdAfterTimestamp ''d1'' 100 documentWorld
                  = (Inr (Some ''d1''), snd (deleteDocumentsByIdAfterTimestamp ''d1'' 100 documentWorld))"
    by (simp add: prod_eq_iff)
  have n: "length (db_documents documentWorld) = 2
     \<and> length (db_documents (snd (deleteDocumentsByIdAfterTimestamp ''d1'' 100 documentWorld))) = 1"
    by (simp add: deleteDocumentsByIdAfterTimestamp_def documentWorld_def eval_defs)
  from deleteDocumentsByIdAfterTimestamp_cascade [OF r] f n show ?thesis by blast
qed

section \<open>Guest users\<close>

lemma createGuestUser_unfold:
  "createGuestUser env w =
     tryCatch bad_request_database ''Failed to create guest user''
       (andThen (create User \<lparr>given_id = Some (uuidOf env (entropy w)),
                              given_email = Some (''guest-'' @ numberToString (now w)),
                              given_password = Some (generateHashedPassword env (uuidOf env (Suc (entropy w))))\<rparr>)
          (\<lambda>newUser. resolve [[(''id'', user_id newUser), (''email'', user_email newUser)]]))
       (w\<lparr>entropy := Suc (Suc (entropy w))\<rparr>)"
  by (simp add: createGuestUser_def andThen_def generateUUID_def dateNow_def Let_def)

text \<open>
  Claim C10: whenever \<open>createGuestUser\<close> succeeds, its result is an array of one object
  with the fields \<open>id\<close> and \<open>email\<close> of the new user and nothing else; the hash of the
  generated password is in the stored User record and not in the result.
\<close>

theorem createGuestUser_result:
  assumes "createGuestUser env w = (Inr r, w')"
  shows "r = [[(''id'', uuidOf env (entropy w)),
               (''email'', ''guest-'' @ numberToString (now w))]]
       \<and> db_users w' = db_users w @
            [\<lparr>user_oid = next_oid w, user_id = uuidOf env (entropy w),
              user_email = ''guest-'' @ numberToString (now w),
              user_password = Some (generateHashedPassword env (uuidOf env (Suc (entropy w))))\<rparr>]"
proof -
  from assms obtain u w1 where
    c: "create User \<lparr>given_id = Some (uuidOf env (entropy w)),
                     given_email = Some (''guest-'' @ numberToString (now w)),
                     given_password = Some (generateHashedPassword env (uuidOf env (Suc (entropy w))))\<rparr>
          (w\<lparr>entropy := Suc (Suc (entropy w))\<rparr>) = (Inr u, w1)"
    and r: "r = [[(''id'', user_id u), (''email'', user_email u)]]" and w: "w' = w1"
    unfolding createGuestUser_unfold tryCatch_Inr andThen_Inr resolve_Inr by blast
  note k = create_Inr [OF c]
  from k have u: "u = \<lparr>user_oid = next_oid w, user_id = uuidOf env (entropy w),
              user_email = ''guest-'' @ numberToString (now w),
              user_password = Some (generateHashedPassword env (uuidOf env (Suc (entropy w))))\<rparr>"
    by (auto simp: User_def userSchema_def orEmpty_def dest: checked_Inr)
  from k have "db_users w1 = db_users w @ [u]"
    by (simp add: User_def)
  with r w u show ?thesis by simp
qed

theorem createGuestUser_result_witness:
  "fst (createGuestUser sampleEnv emptyWorld)
     = Inr [[(''id'', ''uuid-0''), (''email'', ''guest-1700000000000'')]]
   \<and> db_users (snd (createGuestUser sampleEnv emptyWorld))
     = [\<lparr>user_oid = 0, user_id = ''uuid-0'', user_email = ''guest-1700000000000'',
         user_password = Some ''hashed:uuid-1''\<rparr>]"
proof -
  have n: "numberToString 1700000000000 = ''1700000000000''"
    by (simp add: numberToString_def decimal.simps)
  have d: "decimal 0 = ''0''" "decimal (Suc 0) = ''1''"
    by (simp_all add: decimal.simps)
  have e: "uuidOf sampleEnv (entropy emptyWorld) = ''uuid-0''"
    "uuidOf sampleEnv (Suc (entropy emptyWorld)) = ''uuid-1''"
    "now emptyWorld = 1700000000000" "next_oid emptyWorld = 0" "db_users emptyWorld = []"
    "generateHashedPassword sampleEnv ''uuid-1'' = ''hashed:uuid-1''"
    by (simp_all add: sampleEnv_def emptyWorld_def d)
  have "\<not> isl (fst (createGuestUser sampleEnv emptyWorld))"
    unfolding createGuestUser_unfold e n
    by (simp add: eval_defs)
  then obtain r where fr: "fst (createGuestUser sampleEnv emptyWorld) = Inr r"
    by (cases "fst (createGuestUser sampleEnv emptyWorld)") auto
  then have "createGuestUser sampleEnv emptyWorld
               = (Inr r, snd (createGuestUser sampleEnv emptyWorld))"
    by (simp add: prod_eq_iff)
  from createGuestUser_result [OF this]
  have "r = [[(''id'', ''uuid-0''), (''email'', ''guest-1700000000000'')]]
      \<and> db_users (snd (createGuestUser sampleEnv emptyWorld))
        = [\<lparr>user_oid = 0, user_id = ''uuid-0'', user_email = ''guest-1700000000000'',
            user_password = Some ''hashed:uuid-1''\<rparr>]"
    by (simp add: e n)
  with fr show ?thesis by simp
qed

section \<open>Errors at the function boundary\<close>













lemma nextRequestFails_entropy [simp]:
  "nextRequestFails (w\<lparr>entropy := n\<rparr>) = nextRequestFails w"
  by (simp add: nextRequestFails_def)































text \<open>
  A window whose start is no valid date: the count query is refused, and the function
  throws its \<open>bad_request:database\<close> error.
\<close>

lemma getMessageCountByUserId_invalid_date:
  "fst (getMessageCountByUserId env ''u1'' 2500000000 emptyWorld)
     = Inl (ChatSDKError ''bad_request:database'' ''Failed to get message count by user id'')"
  by (simp add: getMessageCountByUserId_def eval_defs)



section \<open>Pagination\<close>

lemma throw_Inr: "throw e w = (Inr v, w') \<longleftrightarrow> False"
  by (simp add: throw_def)

lemma cursor_branch_Inr:
  assumes "andThen (findOne Chat p)
             (\<lambda>sel. case sel of None \<Rightarrow> throw e | Some sc \<Rightarrow> resolve (f sc)) w = (Inr q, w1)"
  shows "\<exists>sc. List.find p (db_chats w) = Some sc \<and> q = f sc \<and> db_chats w1 = db_chats w"
proof -
  from assms obtain sel w2 where
    f: "findOne Chat p w = (Inr sel, w2)" and
    k: "(case sel of None \<Rightarrow> throw e | Some sc \<Rightarrow> resolve (f sc)) w2 = (Inr q, w1)"
    unfolding andThen_Inr by blast
  from findOne_Inr [OF f] have sel: "sel = List.find p (db_chats w)"
    and w2: "db_chats w2 = db_chats w"
    by (simp_all add: Chat_def)
  from k obtain sc where "sel = Some sc" "q = f sc" "w1 = w2"
    by (cases sel) (auto simp: throw_Inr resolve_Inr)
  with sel w2 show ?thesis by (intro exI [of _ sc]) simp
qed

lemma cursorQuery_Inr:
  assumes "cursorQuery u sa eb w = (Inr q, w1)"
  shows "db_chats w1 = db_chats w \<and> filter q (db_chats w) = matchingChats u sa eb w"
proof (cases "truthy sa")
  case (Some s)
  with assms have "\<exists>sc. List.find (\<lambda>c. chat_id c = s) (db_chats w) = Some sc
      \<and> q = (\<lambda>c. chat_userId c = u \<and> chat_createdAt sc < chat_createdAt c)
      \<and> db_chats w1 = db_chats w"
    unfolding cursorQuery_def by (intro cursor_branch_Inr) simp
  with Some show ?thesis
    by (auto simp: matchingChats_def cursorOf_def)
next
  case None
  show ?thesis
  proof (cases "truthy eb")
    case (Some s)
    with None assms have "\<exists>sc. List.find (\<lambda>c. chat_id c = s) (db_chats w) = Some sc
        \<and> q = (\<lambda>c. chat_userId c = u \<and> chat_createdAt c < chat_createdAt sc)
        \<and> db_chats w1 = db_chats w"
      unfolding cursorQuery_def by (intro cursor_branch_Inr) simp
    with Some None show ?thesis
      by (auto simp: matchingChats_def cursorOf_def)
  next
    case None2: None
    with None assms show ?thesis
      by (auto simp: cursorQuery_def resolve_Inr matchingChats_def cursorOf_def)
  qed
qed

lemma getChatsByUserId_Inr:
  assumes "getChatsByUserId u limit sa eb w = (Inr page, w')"
  shows "chats page = take limit (sort_desc chat_createdAt (matchingChats u sa eb w))
       \<and> length (chats page) \<le> limit
       \<and> hasMore page = (length (chats page) < length (matchingChats u sa eb w))"
proof -
  from assms obtain q w1 filtered where
    c: "cursorQuery u sa eb w = (Inr q, w1)" and
    f: "find_exec Chat q (\<lambda>xs. limit_docs (limit + 1) (sort_desc chat_createdAt xs)) w1
          = (Inr filtered, w')" and
    p: "page = \<lparr>chats = (if limit < length filtered then take limit filtered else filtered),
                hasMore = limit < length filtered\<rparr>"
    unfolding getChatsByUserId_def tryCatch_Inr andThen_Inr resolve_Inr Let_def by blast
  note cq = cursorQuery_Inr [OF c]
  from find_exec_Inr [OF f] cq
  have "filtered = limit_docs (limit + 1) (sort_desc chat_createdAt (matchingChats u sa eb w))"
    by (simp add: Chat_def)
  then have f': "filtered = take (limit + 1) (sort_desc chat_createdAt (matchingChats u sa eb w))"
    by (simp add: limit_docs_def)
  have l: "length (sort_desc chat_createdAt (matchingChats u sa eb w))
             = length (matchingChats u sa eb w)"
    by (simp add: sort_desc_def)
  from f' l have n: "length filtered = min (limit + 1) (length (matchingChats u sa eb w))"
    by simp
  have "chats page = take limit (sort_desc chat_createdAt (matchingChats u sa eb w))"
  proof (cases "limit < length filtered")
    case True
    with p f' show ?thesis by (simp add: min_def)
  next
    case False
    with n have "length (sort_desc chat_createdAt (matchingChats u sa eb w)) \<le> limit"
      using l by (simp add: min_def split: if_splits)
    with False p f' show ?thesis by simp
  qed
  moreover from p n have "length (chats page) \<le> limit
       \<and> hasMore page = (length (chats page) < length (matchingChats u sa eb w))"
    by auto
  ultimately show ?thesis by simp
qed

lemma cursorQuery_returns:
  assumes "cursorOf sa eb w \<noteq> Missing"
  shows "(cursorOf sa eb w = NoCursor \<and> (\<exists>q. cursorQuery u sa eb w = (Inr q, w)))
       \<or> (cursorOf sa eb w \<noteq> NoCursor \<and>
           (nextRequestFails w \<or> (\<exists>q. cursorQuery u sa eb w = (Inr q, w\<lparr>faults := tl (faults w)\<rparr>))))"
  using assms
  by (cases w)
     (auto simp: cursorOf_def cursorQuery_def andThen_def findOne_def request_def resolve_def
        Chat_def nextRequestFails_def split: option.splits list.splits)

lemma find_exec_returns:
  "\<not> nextRequestFails w \<Longrightarrow>
     find_exec M p post w
       = (Inr (post (filter p (docs M (w\<lparr>faults := tl (faults w)\<rparr>)))), w\<lparr>faults := tl (faults w)\<rparr>)"
  by (cases w) (auto simp: find_exec_def request_def nextRequestFails_def split: list.splits)

lemma no_fault_in_two:
  assumes "True \<notin> set (take 2 (faults w))"
  shows "\<not> nextRequestFails w" and "\<not> nextRequestFails (w\<lparr>faults := tl (faults w)\<rparr>)"
proof -
  show "\<not> nextRequestFails w"
    using assms by (cases "faults w") (auto simp: nextRequestFails_def)
  show "\<not> nextRequestFails (w\<lparr>faults := tl (faults w)\<rparr>)"
  proof (cases "faults w")
    case Nil
    then show ?thesis by (simp add: nextRequestFails_def)
  next
    case (Cons f fs)
    with assms show ?thesis
      by (cases fs) (auto simp: nextRequestFails_def take_Suc_conv_app_nth numeral_2_eq_2)
  qed
qed

lemma getChatsByUserId_returns:
  assumes "cursorOf sa eb w \<noteq> Missing" and "True \<notin> set (take 2 (faults w))"
  shows "\<exists>page w'. getChatsByUserId u limit sa eb w = (Inr page, w')"
proof -
  note nf = no_fault_in_two [OF assms(2)]
  from cursorQuery_returns [OF assms(1), of u] nf(1)
  obtain q w1 where q: "cursorQuery u sa eb w = (Inr q, w1)"
    and w1: "w1 = w \<or> w1 = w\<lparr>faults := tl (faults w)\<rparr>"
    by blast
  from w1 nf have "\<not> nextRequestFails w1" by auto
  from find_exec_returns [OF this]
  obtain filtered w2 where
    "find_exec Chat q (\<lambda>xs. limit_docs (limit + 1) (sort_desc chat_createdAt xs)) w1
       = (Inr filtered, w2)"
    by blast
  with q show ?thesis
    unfolding getChatsByUserId_def tryCatch_Inr andThen_Inr resolve_Inr Let_def by blast
qed

text \<open>
  Claim C3: whenever \<open>getChatsByUserId\<close> returns, the page is the first \<open>limit\<close> of the
  user's matching chats under the cursor filter, newest first, so it holds at most
  \<open>limit\<close> chats, all of them matching; and \<open>hasMore\<close> is true exactly when the user has
  more matching chats than the page holds. It does return whenever the cursor (if any)
  selects a chat and the store fails neither of its two operations.
\<close>

theorem getChatsByUserId_page:
  "(\<forall>page w'. getChatsByUserId u limit sa eb w = (Inr page, w') \<longrightarrow>
       chats page = take limit (sort_desc chat_createdAt (matchingChats u sa eb w))
       \<and> length (chats page) \<le> limit
       \<and> hasMore page = (length (chats page) < length (matchingChats u sa eb w)))
   \<and> (cursorOf sa eb w \<noteq> Missing \<and> True \<notin> set (take 2 (faults w)) \<longrightarrow>
       (\<exists>page w'. getChatsByUserId u limit sa eb w = (Inr page, w')))"
  using getChatsByUserId_Inr getChatsByUserId_returns by blast

theorem getChatsByUserId_page_witness:
  "cursorOf (Some ''c1'') None pagingWorld = After 100
   \<and> True \<notin> set (take 2 (faults pagingWorld))
   \<and> map chat_id (matchingChats ''u1'' (Some ''c1'') None pagingWorld) = [''c2'', ''c4'']
   \<and> (\<exists>page w'. getChatsByUserId ''u1'' 1 (Some ''c1'') None pagingWorld = (Inr page, w')
         \<and> map chat_id (chats page) = [''c2'']
         \<and> chats page = take 1 (sort_desc chat_createdAt
                                  (matchingChats ''u1'' (Some ''c1'') None pagingWorld))
         \<and> length (chats page) \<le> 1
         \<and> hasMore page = (length (chats page) < length (matchingChats ''u1'' (Some ''c1'') None pagingWorld)))"
proof -
  have c: "cursorOf (Some ''c1'') None pagingWorld = After 100"
    by (simp add: cursorOf_def pagingWorld_def eval_defs)
  have f: "True \<notin> set (take 2 (faults pagingWorld))"
    by (simp add: pagingWorld_def eval_defs)
  have m: "map chat_id (matchingChats ''u1'' (Some ''c1'') None pagingWorld) = [''c2'', ''c4'']"
    by (simp add: matchingChats_def c) (simp add: pagingWorld_def eval_defs)
  have e: "map chat_id (chats (projr (fst (getChatsByUserId ''u1'' 1 (Some ''c1'') None pagingWorld))))
             = [''c2'']"
    by (simp add: getChatsByUserId_def cursorQuery_def pagingWorld_def eval_defs)
  note t = getChatsByUserId_page [of "''u1''" 1 "Some ''c1''" None pagingWorld]
  from t c f obtain page w' where
    r: "getChatsByUserId ''u1'' 1 (Some ''c1'') None pagingWorld = (Inr page, w')"
    by auto
  with t have "chats page = take 1 (sort_desc chat_createdAt
                                  (matchingChats ''u1'' (Some ''c1'') None pagingWorld))
     \<and> length (chats page) \<le> 1
     \<and> hasMore page = (length (chats page) < length (matchingChats ''u1'' (Some ''c1'') None pagingWorld))"
    by blast
  moreover from e r have "map chat_id (chats page) = [''c2'']" by simp
  ultimately have "\<exists>page w'. getChatsByUserId ''u1'' 1 (Some ''c1'') None pagingWorld = (Inr page, w')
         \<and> map chat_id (chats page) = [''c2'']
         \<and> chats page = take 1 (sort_desc chat_createdAt
                                  (matchingChats ''u1'' (Some ''c1'') None pagingWorld))
         \<and> length (chats page) \<le> 1
         \<and> hasMore page = (length (chats page) < length (matchingChats ''u1'' (Some ''c1'') None pagingWorld))"
    using r by (intro exI [of _ page] exI [of _ w']) simp
  with c f m show ?thesis by (intro conjI)
qed

section \<open>Voting\<close>

lemma updateOne_Inr:
  "updateOne M p f w = (Inr n, w') \<Longrightarrow>
     w' = put M (updateFirst p f (docs M (w\<lparr>faults := tl (faults w)\<rparr>)))
            (w\<lparr>faults := tl (faults w)\<rparr>)"
  unfolding updateOne_def by (drule request_Inr) auto

lemma filter_updateFirst_same:
  assumes "\<And>x. p x \<Longrightarrow> p (f x)"
  shows "filter p (updateFirst p f xs) = (case filter p xs of [] \<Rightarrow> [] | y # ys \<Rightarrow> f y # ys)"
  using assms by (induction xs) auto

lemma voteMessage_Inr:
  assumes "voteMessage chatId messageId type w = (Inr r, w')"
  shows "db_votes w' = voted chatId messageId type (next_oid w) (db_votes w)"
proof -
  from assms obtain existingVote w1 where
    f: "findOne Vote (\<lambda>v. vote_messageId v = messageId) w = (Inr existingVote, w1)" and
    k: "(case existingVote of
            Some _ \<Rightarrow>
              andThen (updateOne Vote (\<lambda>v. vote_messageId v = messageId \<and> vote_chatId v = chatId)
                         (\<lambda>v. v\<lparr>vote_isUpvoted := (type = Up)\<rparr>))
                (\<lambda>n. resolve (Updated n))
          | None \<Rightarrow>
              andThen (create Vote \<lparr>vote_oid = 0, vote_chatId = chatId, vote_messageId = messageId,
                                    vote_isUpvoted = (type = Up)\<rparr>)
                (\<lambda>v. resolve (Created v))) w1 = (Inr r, w')"
    unfolding voteMessage_def tryCatch_Inr andThen_Inr by blast
  from findOne_Inr [OF f]
  have e: "existingVote = List.find (\<lambda>v. vote_messageId v = messageId) (db_votes w)"
    and w1: "db_votes w1 = db_votes w" "next_oid w1 = next_oid w"
    by (simp_all add: Vote_def)
  show ?thesis
  proof (cases existingVote)
    case None
    with k obtain v where
      c: "create Vote \<lparr>vote_oid = 0, vote_chatId = chatId, vote_messageId = messageId,
                       vote_isUpvoted = (type = Up)\<rparr> w1 = (Inr v, w')"
      by (auto simp: andThen_Inr resolve_Inr)
    note cr = create_Inr [OF c]
    from cr have "v = \<lparr>vote_oid = next_oid w1, vote_chatId = chatId, vote_messageId = messageId,
                       vote_isUpvoted = (type = Up)\<rparr>"
      by (auto simp: Vote_def voteSchema_def dest: checked_Inr)
    moreover from cr have "db_votes w' = db_votes w1 @ [v]"
      by (simp add: Vote_def)
    ultimately show ?thesis
      using None e w1 by (simp add: voted_def)
  next
    case (Some a)
    with k obtain n where
      u: "updateOne Vote (\<lambda>v. vote_messageId v = messageId \<and> vote_chatId v = chatId)
            (\<lambda>v. v\<lparr>vote_isUpvoted := (type = Up)\<rparr>) w1 = (Inr n, w')"
      by (auto simp: andThen_Inr resolve_Inr)
    from updateOne_Inr [OF u] have "db_votes w' =
       updateFirst (\<lambda>v. vote_messageId v = messageId \<and> vote_chatId v = chatId)
         (\<lambda>v. v\<lparr>vote_isUpvoted := (type = Up)\<rparr>) (db_votes w1)"
      by (simp add: Vote_def)
    with Some e w1 show ?thesis by (simp add: voted_def)
  qed
qed

lemma voted_pair:
  assumes one: "length (filter (\<lambda>v. vote_messageId v = m \<and> vote_chatId v = c) xs) \<le> 1"
    and some: "filter (\<lambda>v. vote_messageId v = m \<and> vote_chatId v = c) xs \<noteq> []
               \<or> filter (\<lambda>v. vote_messageId v = m \<and> vote_chatId v \<noteq> c) xs = []"
  shows "\<exists>v. filter (\<lambda>v. vote_messageId v = m \<and> vote_chatId v = c) (voted c m t oid xs) = [v]
             \<and> vote_isUpvoted v = (t = Up)"
proof -
  let ?P = "\<lambda>v. vote_messageId v = m \<and> vote_chatId v = c"
  let ?Q = "\<lambda>v. vote_messageId v = m \<and> vote_chatId v \<noteq> c"
  let ?f = "\<lambda>v. v\<lparr>vote_isUpvoted := (t = Up)\<rparr>"
  show ?thesis
  proof (cases "List.find (\<lambda>v. vote_messageId v = m) xs")
    case None
    then have "filter ?P xs = []"
      by (auto simp: find_None_iff filter_empty_conv)
    with None show ?thesis by (simp add: voted_def)
  next
    case (Some y)
    then have y: "y \<in> set xs" "vote_messageId y = m"
      by (auto simp: find_Some_iff)
    have "filter ?P xs \<noteq> []"
    proof (rule ccontr)
      assume "\<not> filter ?P xs \<noteq> []"
      with some have "filter ?P xs = []" and "filter ?Q xs = []" by simp_all
      with y show False
        by (auto simp: filter_empty_conv)
    qed
    with one obtain v0 where v0: "filter ?P xs = [v0]"
      by (cases "filter ?P xs") auto
    have "filter ?P (updateFirst ?P ?f xs) = (case filter ?P xs of [] \<Rightarrow> [] | y # ys \<Rightarrow> ?f y # ys)"
      by (rule filter_updateFirst_same) simp
    with v0 Some show ?thesis by (simp add: voted_def)
  qed
qed

text \<open>
  Where the code does what Claim C5 says: in a state where the pair has at most one Vote
  record (the unique index on (chatId, messageId)) and either has one already or the
  message has no Vote record under another chat, two successful calls of \<open>voteMessage\<close>
  for the pair leave exactly one Vote record for it, with the \<open>isUpvoted\<close> of the second
  call.
\<close>

lemma voteMessage_twice_without_stray_vote:
  assumes "length (votesFor chatId messageId w) \<le> 1"
    and "votesFor chatId messageId w \<noteq> [] \<or> votesElsewhere chatId messageId w = []"
    and "voteMessage chatId messageId type1 w = (Inr r1, w1)"
    and "voteMessage chatId messageId type2 w1 = (Inr r2, w2)"
  shows "\<exists>v. votesFor chatId messageId w2 = [v] \<and> vote_isUpvoted v = (type2 = Up)"
proof -
  note s1 = voteMessage_Inr [OF assms(3)] and s2 = voteMessage_Inr [OF assms(4)]
  from assms(1,2) have
    one: "length (filter (\<lambda>v. vote_messageId v = messageId \<and> vote_chatId v = chatId) (db_votes w)) \<le> 1"
    and some: "filter (\<lambda>v. vote_messageId v = messageId \<and> vote_chatId v = chatId) (db_votes w) \<noteq> []
       \<or> filter (\<lambda>v. vote_messageId v = messageId \<and> vote_chatId v \<noteq> chatId) (db_votes w) = []"
    by (simp_all add: votesFor_def votesElsewhere_def)
  from voted_pair [OF one some, of type1 "next_oid w"] s1 have
    one1: "length (filter (\<lambda>v. vote_messageId v = messageId \<and> vote_chatId v = chatId) (db_votes w1)) \<le> 1"
    and some1: "filter (\<lambda>v. vote_messageId v = messageId \<and> vote_chatId v = chatId) (db_votes w1) \<noteq> []
       \<or> filter (\<lambda>v. vote_messageId v = messageId \<and> vote_chatId v \<noteq> chatId) (db_votes w1) = []"
    by auto
  from voted_pair [OF one1 some1, of type2 "next_oid w1"] s2 show ?thesis
    by (simp add: votesFor_def)
qed

lemma voteMessage_twice_on_empty_store:
  "fst (voteMessage ''c1'' ''m1'' Up emptyWorld)
       = Inr (Created \<lparr>vote_oid = 0, vote_chatId = ''c1'', vote_messageId = ''m1'', vote_isUpvoted = True\<rparr>)
   \<and> fst (voteMessage ''c1'' ''m1'' Down (snd (voteMessage ''c1'' ''m1'' Up emptyWorld)))
       = Inr (Updated 1)
   \<and> votesFor ''c1'' ''m1''
        (snd (voteMessage ''c1'' ''m1'' Down (snd (voteMessage ''c1'' ''m1'' Up emptyWorld))))
       = [\<lparr>vote_oid = 0, vote_chatId = ''c1'', vote_messageId = ''m1'', vote_isUpvoted = False\<rparr>]"
  by (simp add: voteMessage_def votesFor_def eval_defs)

text \<open>
  Claim C5 (for every chatId and messageId, calling \<open>voteMessage\<close> twice for the pair leaves
  exactly one Vote record for that pair, with the \<open>isUpvoted\<close> of the second call), run
  from the empty store: a first vote on message m1 is recorded under chat c2 (the function
  does not check that the message belongs to the chat); then \<open>voteMessage\<close> is called
  twice for (c1, m1). The lookup, by \<open>messageId\<close> alone, finds the vote of c2; the update,
  by \<open>messageId\<close> and \<open>chatId\<close>, matches nothing. Both calls return normally, and no Vote
  record for (c1, m1) exists afterwards.
\<close>

theorem voteMessage_twice_failing_input:
  "snd (voteMessage ''c2'' ''m1'' Up emptyWorld) = strayVoteWorld
   \<and> fst (voteMessage ''c1'' ''m1'' Up strayVoteWorld) = Inr (Updated 0)
   \<and> fst (voteMessage ''c1'' ''m1'' Down (snd (voteMessage ''c1'' ''m1'' Up strayVoteWorld)))
       = Inr (Updated 0)
   \<and> votesFor ''c1'' ''m1''
        (snd (voteMessage ''c1'' ''m1'' Down (snd (voteMessage ''c1'' ''m1'' Up strayVoteWorld))))
       = []"
  by (simp add: voteMessage_def votesFor_def strayVoteWorld_def eval_defs)

end
